theory Spec2Isabelle
  imports Main
begin

section \<open>JavaScript values and errors\<close>

text \<open>
  The values \<^verbatim>\<open>JSON.parse\<close> builds. The type \<open>'n\<close> stands for JavaScript numbers; the
  client never computes with the numbers of a response body, it only tests them for
  truthiness and prints them, and both are operations of the library (\<open>jslib\<close> below).
  An object is the list of its own properties; \<^verbatim>\<open>JSON.parse\<close> builds objects whose keys
  are distinct.
\<close>

datatype 'n json =
    JNull
  | JBool bool
  | JNumber 'n
  | JString string
  | JArray "'n json list"
  | JObject "(string \<times> 'n json) list"

text \<open>
  What a call can throw: \<open>Error m\<close> is \<^verbatim>\<open>throw new Error(m)\<close> written in the repository,
  \<open>TypeError\<close> is the runtime's error for a property read on \<^verbatim>\<open>null\<close> or for an object
  that cannot be converted to a string, and \<open>Fault f\<close> is an exception of a library call
  the repository does not catch.
\<close>

datatype fault = ReadFileFailed | SignFailed | FetchRejected | BodyNotJson

datatype error = Error string | TypeError | Fault fault

definition bind_err :: "error + 'a \<Rightarrow> ('a \<Rightarrow> error + 'b) \<Rightarrow> error + 'b" where
  "bind_err m f = (case m of Inl e \<Rightarrow> Inl e | Inr x \<Rightarrow> f x)"

text \<open>
  \<^verbatim>\<open>xs.map(f)\<close> for an \<open>f\<close> that may throw: the first exception, in the order of the
  elements, ends the loop.
\<close>

fun sequence_err :: "(error + 'b) list \<Rightarrow> error + 'b list" where
  "sequence_err [] = Inr []"
| "sequence_err (m # ms) =
     bind_err m (\<lambda>y. bind_err (sequence_err ms) (\<lambda>ys. Inr (y # ys)))"

definition mapM_err :: "('a \<Rightarrow> error + 'b) \<Rightarrow> 'a list \<Rightarrow> error + 'b list" where
  "mapM_err f xs = sequence_err (map f xs)"

text \<open>\<^verbatim>\<open>Array.prototype.join\<close> on an array of strings.\<close>

fun join :: "string \<Rightarrow> string list \<Rightarrow> string" where
  "join sep [] = []"
| "join sep [x] = x"
| "join sep (x # y # ys) = x @ sep @ join sep (y # ys)"

text \<open>The decimal digits of a non-negative integer, as a template literal prints it.\<close>

fun show_nat :: "nat \<Rightarrow> string" where
  "show_nat n =
     (if n < 10 then [''0123456789'' ! n]
      else show_nat (n div 10) @ [''0123456789'' ! (n mod 10)])"

declare show_nat.simps [simp del]

text \<open>
  The library functions the client calls on response bodies: \<^verbatim>\<open>JSON.parse\<close> (\<open>None\<close> when
  it throws), \<^verbatim>\<open>JSON.stringify\<close>, and the string and the truthiness of a number.
\<close>

record 'n jslib =
  JSON_parse :: "string \<Rightarrow> 'n json option"
  JSON_stringify :: "'n json \<Rightarrow> string"
  Number_toString :: "'n \<Rightarrow> string"
  Number_truthy :: "'n \<Rightarrow> bool"

text \<open>
  \<^verbatim>\<open>v.k\<close> for the property names the client reads (\<^verbatim>\<open>error\<close>, \<^verbatim>\<open>messageCode\<close>,
  \<^verbatim>\<open>message\<close>, \<^verbatim>\<open>field\<close>), none of which a string, a number, a boolean, an array or
  \<^verbatim>\<open>Object.prototype\<close> has: \<open>None\<close> is \<^verbatim>\<open>undefined\<close>, and reading a property of
  \<^verbatim>\<open>null\<close> throws.
\<close>

fun get_prop :: "'n json \<Rightarrow> string \<Rightarrow> error + 'n json option" where
  "get_prop JNull k = Inl TypeError"
| "get_prop (JObject kvs) k = Inr (map_of kvs k)"
| "get_prop v k = Inr None"

text \<open>Truthiness of a value that may be \<^verbatim>\<open>undefined\<close>.\<close>

fun truthy :: "'n jslib \<Rightarrow> 'n json option \<Rightarrow> bool" where
  "truthy lib None = False"
| "truthy lib (Some JNull) = False"
| "truthy lib (Some (JBool b)) = b"
| "truthy lib (Some (JNumber n)) = Number_truthy lib n"
| "truthy lib (Some (JString s)) = (s \<noteq> [])"
| "truthy lib (Some (JArray xs)) = True"
| "truthy lib (Some (JObject kvs)) = True"

text \<open>
  The string a template literal or \<^verbatim>\<open>String(v)\<close> makes of a value. An array prints its
  elements joined by commas, \<^verbatim>\<open>null\<close> elements as the empty string. A plain object
  prints as \<^verbatim>\<open>[object Object]\<close>; one with an own \<^verbatim>\<open>toString\<close> property (never a
  function in parsed JSON) cannot be converted, which throws.
\<close>

fun ToString :: "'n jslib \<Rightarrow> 'n json \<Rightarrow> error + string" where
  "ToString lib JNull = Inr ''null''"
| "ToString lib (JBool b) = Inr (if b then ''true'' else ''false'')"
| "ToString lib (JNumber n) = Inr (Number_toString lib n)"
| "ToString lib (JString s) = Inr s"
| "ToString lib (JArray xs) =
     bind_err
       (sequence_err (map (\<lambda>x. case x of JNull \<Rightarrow> Inr [] | _ \<Rightarrow> ToString lib x) xs))
       (\<lambda>ss. Inr (join '','' ss))"
| "ToString lib (JObject kvs) =
     (if ''toString'' \<in> fst ` set kvs then Inl TypeError else Inr ''[object Object]'')"

definition ToString_opt :: "'n jslib \<Rightarrow> 'n json option \<Rightarrow> error + string" where
  "ToString_opt lib v = (case v of None \<Rightarrow> Inr ''undefined'' | Some j \<Rightarrow> ToString lib j)"

section \<open>The REST client's response handling (client.ts)\<close>

text \<open>A \<^verbatim>\<open>fetch\<close> response: its status line and the text of its body.\<close>

record response =
  status :: nat
  statusText :: string
  bodyText :: string

definition ok :: "response \<Rightarrow> bool" where
  "ok r = (200 \<le> status r \<and> status r \<le> 299)"

text \<open>
  The arrow function of \<^verbatim>\<open>json.error.map\<close> in \<^verbatim>\<open>handleResponse\<close>:
  \<^verbatim>\<open>e => `${e.messageCode}: ${e.message}${e.field ? ` (field: ${e.field})` : ''}`\<close>.
\<close>

definition format_entry :: "'n jslib \<Rightarrow> 'n json \<Rightarrow> error + string" where
  "format_entry lib e =
     bind_err (get_prop e ''messageCode'') (\<lambda>c.
     bind_err (ToString_opt lib c) (\<lambda>cs.
     bind_err (get_prop e ''message'') (\<lambda>m.
     bind_err (ToString_opt lib m) (\<lambda>ms.
     bind_err (get_prop e ''field'') (\<lambda>f.
       if truthy lib f
       then bind_err (ToString_opt lib f) (\<lambda>fs.
              Inr (cs @ '': '' @ ms @ '' (field: '' @ fs @ '')''))
       else Inr (cs @ '': '' @ ms))))))"

text \<open>
  The branch of \<^verbatim>\<open>handleResponse\<close> for a truthy \<^verbatim>\<open>json.error\<close> that is an object and
  not an array:
  \<^verbatim>\<open>`${err.messageCode || 'ERROR'}: ${err.message || JSON.stringify(json.error)}`\<close>.
\<close>

definition format_single :: "'n jslib \<Rightarrow> 'n json \<Rightarrow> error + string" where
  "format_single lib err =
     bind_err (get_prop err ''messageCode'') (\<lambda>c.
     bind_err (if truthy lib c then ToString_opt lib c else Inr ''ERROR'') (\<lambda>cs.
     bind_err (get_prop err ''message'') (\<lambda>m.
     bind_err (if truthy lib m then ToString_opt lib m else Inr (JSON_stringify lib err)) (\<lambda>ms.
       Inr (cs @ '': '' @ ms)))))"

text \<open>The message \<^verbatim>\<open>handleResponse\<close> builds for a response that is not ok.\<close>

definition errorMessage :: "'n jslib \<Rightarrow> response \<Rightarrow> 'n json \<Rightarrow> error + string" where
  "errorMessage lib r json =
     bind_err (get_prop json ''error'') (\<lambda>err.
       if truthy lib err then
         (case err of
            Some (JArray es) \<Rightarrow>
              bind_err (mapM_err (format_entry lib) es) (\<lambda>ms. Inr (join ''; '' ms))
          | Some (JObject kvs) \<Rightarrow> format_single lib (JObject kvs)
          | _ \<Rightarrow> ToString_opt lib err)
       else
         Inr (''HTTP '' @ show_nat (status r) @ '': '' @ statusText r
              @ '' - Response: '' @ bodyText r))"

text \<open>
  \<^verbatim>\<open>handleResponse\<close>: \<open>Inl\<close> is the exception thrown, \<open>Inr\<close> the envelope returned.
  The test of the body text comes first, before the body is parsed and before the status
  is looked at.
\<close>

definition handleResponse :: "'n jslib \<Rightarrow> response \<Rightarrow> error + 'n json" where
  "handleResponse lib r =
     (if bodyText r = [] then Inr (JObject [(''data'', JNull)])
      else
        (case JSON_parse lib (bodyText r) of
           None \<Rightarrow> Inl (Error (''Invalid JSON response: '' @ bodyText r))
         | Some json \<Rightarrow>
             if \<not> ok r
             then bind_err (errorMessage lib r json) (\<lambda>m. Inl (Error m))
             else Inr json))"

section \<open>Token minting, exchange and cache (auth.ts)\<close>

record AuthConfig =
  clientId :: string
  teamId :: string
  keyId :: string
  privateKeyPath :: string

text \<open>
  The token endpoint's answer as \<^verbatim>\<open>fetchAccessToken\<close> declares it. \<^verbatim>\<open>expires_in\<close> is a
  number of seconds.
\<close>

record TokenResponse =
  access_token :: string
  token_type :: string
  expires_in :: int

record CachedToken =
  accessToken :: string
  expiresAt :: int

record jwt_payload =
  iss :: string
  iat :: int
  exp :: int
  aud :: string
  sub :: string

record jwt_header =
  alg :: string
  kid :: string

text \<open>
  The request \<^verbatim>\<open>fetchAccessToken\<close> sends; \<open>form\<close> holds the pairs of its
  \<^verbatim>\<open>URLSearchParams\<close> body in order.
\<close>

record token_request =
  url :: string
  http_method :: string
  headers :: "(string \<times> string) list"
  form :: "(string \<times> string) list"

datatype fetch_result = Rejected | Responded response

text \<open>
  What lies outside the module during one call of \<^verbatim>\<open>getAccessToken\<close>: the file system
  (\<open>None\<close> when \<^verbatim>\<open>readFileSync\<close> throws), the clock as \<^verbatim>\<open>generateClientSecret\<close> reads it
  (milliseconds), \<^verbatim>\<open>jwt.sign\<close> (\<open>None\<close> when it throws), the answer of \<^verbatim>\<open>fetch\<close> to a
  request (\<open>Rejected\<close> when no response arrives), and \<^verbatim>\<open>response.json()\<close> (\<open>None\<close>
  when the body is not JSON). The source casts the parsed body to \<^verbatim>\<open>TokenResponse\<close>
  without a check, and so does the model: a body that parses is read at that type.
\<close>

record auth_io =
  readFileSync :: "string \<Rightarrow> string option"
  Date_now_mint :: int
  jwt_sign :: "jwt_payload \<Rightarrow> string \<Rightarrow> jwt_header \<Rightarrow> string option"
  fetch_token :: "token_request \<Rightarrow> fetch_result"
  response_json :: "string \<Rightarrow> TokenResponse option"

text \<open>
  The module's state: the variable \<^verbatim>\<open>cachedToken\<close> (\<open>None\<close> is \<^verbatim>\<open>null\<close>), and the
  requests sent to the token endpoint so far, oldest first. The log is not a variable of
  the source: it records the calls of \<^verbatim>\<open>fetch\<close>, so that their number can be stated.
\<close>

record auth_state =
  cachedToken :: "CachedToken option"
  token_requests :: "token_request list"

definition TOKEN_ENDPOINT :: string where
  "TOKEN_ENDPOINT = ''https://appleid.apple.com/auth/oauth2/token''"

definition generateClientSecret :: "auth_io \<Rightarrow> AuthConfig \<Rightarrow> error + string" where
  "generateClientSecret io config =
     (case readFileSync io (privateKeyPath config) of
        None \<Rightarrow> Inl (Fault ReadFileFailed)
      | Some privateKey \<Rightarrow>
          (let now = Date_now_mint io div 1000;
               expiresIn = 86400;
               payload = \<lparr>iss = teamId config, iat = now, exp = now + expiresIn,
                          aud = ''https://appleid.apple.com'', sub = clientId config\<rparr>;
               header = \<lparr>alg = ''ES256'', kid = keyId config\<rparr>
           in case jwt_sign io payload privateKey header of
                None \<Rightarrow> Inl (Fault SignFailed)
              | Some secret \<Rightarrow> Inr secret))"

text \<open>The request \<^verbatim>\<open>fetchAccessToken\<close> builds from the configuration and the secret.\<close>

definition token_request_of :: "AuthConfig \<Rightarrow> string \<Rightarrow> token_request" where
  "token_request_of config clientSecret =
     \<lparr>url = TOKEN_ENDPOINT, http_method = ''POST'',
      headers = [(''Content-Type'', ''application/x-www-form-urlencoded'')],
      form = [(''grant_type'', ''client_credentials''),
              (''client_id'', clientId config),
              (''client_secret'', clientSecret),
              (''scope'', ''searchadsorg'')]\<rparr>"

definition fetchAccessToken ::
  "auth_io \<Rightarrow> AuthConfig \<Rightarrow> auth_state \<Rightarrow> (error + TokenResponse) \<times> auth_state" where
  "fetchAccessToken io config st =
     (case generateClientSecret io config of
        Inl e \<Rightarrow> (Inl e, st)
      | Inr clientSecret \<Rightarrow>
          (let req = token_request_of config clientSecret;
               st' = st\<lparr>token_requests := token_requests st @ [req]\<rparr>
           in case fetch_token io req of
                Rejected \<Rightarrow> (Inl (Fault FetchRejected), st')
              | Responded r \<Rightarrow>
                  if \<not> ok r
                  then (Inl (Error (''Failed to fetch access token: ''
                                    @ show_nat (status r) @ '' '' @ bodyText r)), st')
                  else (case response_json io (bodyText r) of
                          None \<Rightarrow> (Inl (Fault BodyNotJson), st')
                        | Some tokenResponse \<Rightarrow> (Inr tokenResponse, st'))))"

text \<open>
  The test of \<^verbatim>\<open>getAccessToken\<close> on the cache:
  \<^verbatim>\<open>cachedToken && cachedToken.expiresAt > now + 5 * 60 * 1000\<close>.
\<close>

definition cache_valid :: "int \<Rightarrow> auth_state \<Rightarrow> bool" where
  "cache_valid now st =
     (case cachedToken st of
        None \<Rightarrow> False
      | Some c \<Rightarrow> expiresAt c > now + 5 * 60 * 1000)"

text \<open>
  The lines of \<^verbatim>\<open>getAccessToken\<close> after that test: the token is fetched, and only when
  that succeeded is \<^verbatim>\<open>cachedToken\<close> assigned and its token returned.
\<close>

definition fetchAndCache ::
  "auth_io \<Rightarrow> int \<Rightarrow> AuthConfig \<Rightarrow> auth_state \<Rightarrow> (error + string) \<times> auth_state" where
  "fetchAndCache io now config st =
     (case fetchAccessToken io config st of
        (Inl e, st') \<Rightarrow> (Inl e, st')
      | (Inr tokenResponse, st') \<Rightarrow>
          (Inr (access_token tokenResponse),
           st'\<lparr>cachedToken :=
                 Some \<lparr>accessToken = access_token tokenResponse,
                       expiresAt = now + expires_in tokenResponse * 1000\<rparr>\<rparr>))"

text \<open>
  \<^verbatim>\<open>getAccessToken\<close>, with \<open>now\<close> the value of \<^verbatim>\<open>Date.now()\<close> at its first line
  (milliseconds). One call runs from start to end; calls do not interleave here.
\<close>

definition getAccessToken ::
  "auth_io \<Rightarrow> int \<Rightarrow> AuthConfig \<Rightarrow> auth_state \<Rightarrow> (error + string) \<times> auth_state" where
  "getAccessToken io now config st =
     (case cachedToken st of
        None \<Rightarrow> fetchAndCache io now config st
      | Some c \<Rightarrow>
          if expiresAt c > now + 5 * 60 * 1000 then (Inr (accessToken c), st)
          else fetchAndCache io now config st)"

definition clearTokenCache :: "auth_state \<Rightarrow> auth_state" where
  "clearTokenCache st = st\<lparr>cachedToken := None\<rparr>"

section \<open>Configuration from the environment (auth.ts, client.ts)\<close>

text \<open>
  \<^verbatim>\<open>process.env\<close> maps a variable's name to its value, \<open>None\<close> when it is not set.
  \<^verbatim>\<open>!v\<close> holds of a variable that is not set and of one set to the empty string.
\<close>

type_synonym env = "string \<Rightarrow> string option"

definition falsy :: "string option \<Rightarrow> bool" where
  "falsy v = (case v of None \<Rightarrow> True | Some s \<Rightarrow> s = [])"

definition loadAuthConfigFromEnv :: "env \<Rightarrow> error + AuthConfig" where
  "loadAuthConfigFromEnv e =
     (let clientId = e ''APPLE_ADS_CLIENT_ID'';
          teamId = e ''APPLE_ADS_TEAM_ID'';
          keyId = e ''APPLE_ADS_KEY_ID'';
          privateKeyPath = e ''APPLE_ADS_PRIVATE_KEY_PATH''
      in if falsy clientId
         then Inl (Error ''APPLE_ADS_CLIENT_ID environment variable is required'')
         else if falsy teamId
         then Inl (Error ''APPLE_ADS_TEAM_ID environment variable is required'')
         else if falsy keyId
         then Inl (Error ''APPLE_ADS_KEY_ID environment variable is required'')
         else if falsy privateKeyPath
         then Inl (Error ''APPLE_ADS_PRIVATE_KEY_PATH environment variable is required'')
         else Inr \<lparr>clientId = the clientId, teamId = the teamId, keyId = the keyId,
                    privateKeyPath = the privateKeyPath\<rparr>)"

text \<open>
  \<^verbatim>\<open>createClientFromEnv\<close> returns \<^verbatim>\<open>new AppleAdsClient(config)\<close>; the client is
  its configuration, which is all its constructor stores.
\<close>

record ApiClientConfig =
  auth :: AuthConfig
  orgId :: string

definition createClientFromEnv :: "env \<Rightarrow> error + ApiClientConfig" where
  "createClientFromEnv e =
     (let clientId = e ''APPLE_ADS_CLIENT_ID'';
          teamId = e ''APPLE_ADS_TEAM_ID'';
          keyId = e ''APPLE_ADS_KEY_ID'';
          privateKeyPath = e ''APPLE_ADS_PRIVATE_KEY_PATH'';
          orgId = e ''APPLE_ADS_ORG_ID''
      in if falsy clientId \<or> falsy teamId \<or> falsy keyId \<or> falsy privateKeyPath \<or> falsy orgId
         then Inl (Error (''Missing required environment variables. Please set: ''
                          @ ''APPLE_ADS_CLIENT_ID, APPLE_ADS_TEAM_ID, APPLE_ADS_KEY_ID, ''
                          @ ''APPLE_ADS_PRIVATE_KEY_PATH, APPLE_ADS_ORG_ID''))
         else Inr \<lparr>auth = \<lparr>clientId = the clientId, teamId = the teamId, keyId = the keyId,
                            privateKeyPath = the privateKeyPath\<rparr>,
                    orgId = the orgId\<rparr>)"

section \<open>Report parameters (tools/reports.ts)\<close>

datatype sortOrder = ASCENDING | DESCENDING

datatype operator =
  EQUALS | IN | LESS_THAN | GREATER_THAN | STARTSWITH | CONTAINS_ANY | CONTAINS_ALL

datatype timeZone = ORTZ | UTC

datatype granularity = HOURLY | DAILY | WEEKLY | MONTHLY

text \<open>
  An order-by clause and a condition, \<^verbatim>\<open>{field, sortOrder}\<close> and
  \<^verbatim>\<open>{field, operator, values}\<close> in the source; the field names carry a prefix here, as
  two records cannot share one.
\<close>

record orderClause =
  ob_field :: string
  ob_sortOrder :: sortOrder

record condition =
  c_field :: string
  c_operator :: operator
  c_values :: "string list"

text \<open>
  The arguments of a report tool, the value of \<^verbatim>\<open>baseReportSchema\<close>. A property is an
  option wherever \<^verbatim>\<open>buildReportParams\<close> reads it with \<^verbatim>\<open>?.\<close>, \<^verbatim>\<open>??\<close> or a test for
  truthiness; the values that can be present (objects, arrays, names of an enumeration) are
  all truthy. \<^verbatim>\<open>limit\<close> and \<^verbatim>\<open>offset\<close> are numbers, copied and never computed with.
\<close>

record reportSelectorArgs =
  conditions :: "condition list option"
  orderBy :: "orderClause option"
  limit :: "int option"
  offset :: "int option"

record baseReportArgs =
  startTime :: string
  endTime :: string
  selector :: "reportSelectorArgs option"
  groupBy :: "string list option"
  timeZone :: "timeZone option"
  granularity :: "granularity option"
  returnRowTotals :: "bool option"
  returnGrandTotals :: "bool option"
  returnRecordsWithNoMetrics :: "bool option"

text \<open>
  The arguments of the ad-group, keyword and search-term report tools:
  \<^verbatim>\<open>baseReportSchema.extend({campaignId})\<close>.
\<close>

record campaignReportArgs = baseReportArgs +
  campaignId :: int

text \<open>
  The objects \<^verbatim>\<open>buildReportParams\<close> builds. An option is a property that the object has
  only when the source assigns it.
\<close>

record pagination =
  pg_offset :: int
  pg_limit :: int

record reportSelector =
  sel_pagination :: pagination
  sel_orderBy :: "orderClause list"
  sel_conditions :: "condition list option"

record reportParams =
  p_startTime :: string
  p_endTime :: string
  p_selector :: reportSelector
  p_returnRowTotals :: bool
  p_returnGrandTotals :: bool
  p_returnRecordsWithNoMetrics :: bool
  p_groupBy :: "string list option"
  p_timeZone :: "timeZone option"
  p_granularity :: "granularity option"

definition buildReportParams :: "'a baseReportArgs_scheme \<Rightarrow> reportParams" where
  "buildReportParams args =
     (let selector0 =
            \<lparr>sel_pagination =
               \<lparr>pg_offset =
                  (case selector args of None \<Rightarrow> 0
                   | Some s \<Rightarrow> (case offset s of None \<Rightarrow> 0 | Some v \<Rightarrow> v)),
                pg_limit =
                  (case selector args of None \<Rightarrow> 1000
                   | Some s \<Rightarrow> (case limit s of None \<Rightarrow> 1000 | Some v \<Rightarrow> v))\<rparr>,
             sel_orderBy =
               (case selector args of
                  None \<Rightarrow> [\<lparr>ob_field = ''impressions'', ob_sortOrder = DESCENDING\<rparr>]
                | Some s \<Rightarrow>
                    (case orderBy s of
                       None \<Rightarrow> [\<lparr>ob_field = ''impressions'', ob_sortOrder = DESCENDING\<rparr>]
                     | Some ob \<Rightarrow> [ob])),
             sel_conditions = None\<rparr>;
          selector1 =
            (case selector args of
               None \<Rightarrow> selector0
             | Some s \<Rightarrow>
                 (case conditions s of
                    None \<Rightarrow> selector0
                  | Some cs \<Rightarrow> selector0\<lparr>sel_conditions := Some cs\<rparr>));
          returnRowTotals0 = (case returnRowTotals args of None \<Rightarrow> False | Some b \<Rightarrow> b);
          returnGrandTotals0 = (case returnGrandTotals args of None \<Rightarrow> False | Some b \<Rightarrow> b);
          returnRowTotals1 = (if granularity args = None then True else returnRowTotals0);
          returnGrandTotals1 = (if granularity args = None then returnGrandTotals0 else False);
          params =
            \<lparr>p_startTime = startTime args,
             p_endTime = endTime args,
             p_selector = selector1,
             p_returnRowTotals = returnRowTotals1,
             p_returnGrandTotals = returnGrandTotals1,
             p_returnRecordsWithNoMetrics =
               (case returnRecordsWithNoMetrics args of None \<Rightarrow> False | Some b \<Rightarrow> b),
             p_groupBy = None, p_timeZone = None, p_granularity = None\<rparr>;
          params1 = (case groupBy args of None \<Rightarrow> params
                     | Some g \<Rightarrow> params\<lparr>p_groupBy := Some g\<rparr>);
          params2 = (case timeZone args of None \<Rightarrow> params1
                     | Some z \<Rightarrow> params1\<lparr>p_timeZone := Some z\<rparr>);
          params3 = (case granularity args of None \<Rightarrow> params2
                     | Some g \<Rightarrow> params2\<lparr>p_granularity := Some g\<rparr>)
      in params3)"

text \<open>
  The four handlers, each up to the call of the client it makes: the method called, with
  the campaign id where the method takes one, and the parameters passed.
\<close>

datatype client_call =
    getCampaignReports reportParams
  | getAdGroupReports int reportParams
  | getKeywordReports int reportParams
  | getSearchTermReports int reportParams

definition handleGetCampaignReports :: "baseReportArgs \<Rightarrow> client_call" where
  "handleGetCampaignReports args = getCampaignReports (buildReportParams args)"

definition handleGetAdGroupReports :: "campaignReportArgs \<Rightarrow> client_call" where
  "handleGetAdGroupReports args =
     getAdGroupReports (campaignId args) (buildReportParams args)"

definition handleGetKeywordReports :: "campaignReportArgs \<Rightarrow> client_call" where
  "handleGetKeywordReports args =
     getKeywordReports (campaignId args) (buildReportParams args)"

definition handleGetSearchTermReports :: "campaignReportArgs \<Rightarrow> client_call" where
  "handleGetSearchTermReports args =
     getSearchTermReports (campaignId args) (buildReportParams args)"

text \<open>The parameters a call carries.\<close>

fun params_of :: "client_call \<Rightarrow> reportParams" where
  "params_of (getCampaignReports p) = p"
| "params_of (getAdGroupReports c p) = p"
| "params_of (getKeywordReports c p) = p"
| "params_of (getSearchTermReports c p) = p"

text \<open>
  A call of a report tool, its arguments already parsed by the tool's schema, and the
  cases of the server's call handler for the four report tools (the \<^verbatim>\<open>switch\<close> on the
  tool's name in the entry point): each parses with its own schema and calls its own
  handler. The schema of campaign reports has no \<^verbatim>\<open>campaignId\<close>.
\<close>

datatype report_request =
    get_campaign_reports baseReportArgs
  | get_adgroup_reports campaignReportArgs
  | get_keyword_reports campaignReportArgs
  | get_searchterm_reports campaignReportArgs

fun call_report_tool :: "report_request \<Rightarrow> client_call" where
  "call_report_tool (get_campaign_reports args) = handleGetCampaignReports args"
| "call_report_tool (get_adgroup_reports args) = handleGetAdGroupReports args"
| "call_report_tool (get_keyword_reports args) = handleGetKeywordReports args"
| "call_report_tool (get_searchterm_reports args) = handleGetSearchTermReports args"

section \<open>Terms of the properties\<close>

text \<open>The arguments of a report request that all four levels share.\<close>

fun base_args :: "report_request \<Rightarrow> baseReportArgs" where
  "base_args (get_campaign_reports args) = args"
| "base_args (get_adgroup_reports args) = baseReportArgs.truncate args"
| "base_args (get_keyword_reports args) = baseReportArgs.truncate args"
| "base_args (get_searchterm_reports args) = baseReportArgs.truncate args"

text \<open>The order-by clause the caller of a report tool supplied, if any.\<close>

definition caller_orderBy :: "report_request \<Rightarrow> orderClause option" where
  "caller_orderBy q =
     (case selector (base_args q) of None \<Rightarrow> None | Some s \<Rightarrow> orderBy s)"

text \<open>
  An entry of a structured error list, the interface \<^verbatim>\<open>ApiError\<close> of client.ts, and
  the JSON values that are such entries: objects whose \<^verbatim>\<open>messageCode\<close> and \<^verbatim>\<open>message\<close>
  are strings and whose \<^verbatim>\<open>field\<close>, when they have one, is a string.
\<close>

record ApiError =
  messageCode :: string
  message :: string
  field :: "string option"

definition ApiError_of :: "'n json \<Rightarrow> ApiError option" where
  "ApiError_of j =
     (case j of
        JObject kvs \<Rightarrow>
          (case (map_of kvs ''messageCode'', map_of kvs ''message'') of
             (Some (JString c), Some (JString m)) \<Rightarrow>
               (case map_of kvs ''field'' of
                  None \<Rightarrow> Some \<lparr>messageCode = c, message = m, field = None\<rparr>
                | Some (JString f) \<Rightarrow> Some \<lparr>messageCode = c, message = m, field = Some f\<rparr>
                | Some _ \<Rightarrow> None)
           | _ \<Rightarrow> None)
      | _ \<Rightarrow> None)"

text \<open>
  The text of one entry as the specification words it: the field segment is left out
  when the entry has no field.
\<close>

definition entry_text_spec :: "ApiError \<Rightarrow> string" where
  "entry_text_spec e =
     messageCode e @ '': '' @ message e
     @ (case field e of None \<Rightarrow> [] | Some f \<Rightarrow> '' (field: '' @ f @ '')'')"

text \<open>
  The text of one entry with the field segment left out also when the field is the
  empty string.
\<close>

definition entry_text :: "ApiError \<Rightarrow> string" where
  "entry_text e =
     messageCode e @ '': '' @ message e
     @ (case field e of
          None \<Rightarrow> []
        | Some f \<Rightarrow> if f = [] then [] else '' (field: '' @ f @ '')'')"

text \<open>The environment variables the two loaders read, in the order they test them.\<close>

definition auth_variables :: "string list" where
  "auth_variables =
     [''APPLE_ADS_CLIENT_ID'', ''APPLE_ADS_TEAM_ID'', ''APPLE_ADS_KEY_ID'',
      ''APPLE_ADS_PRIVATE_KEY_PATH'']"

definition client_variables :: "string list" where
  "client_variables = auth_variables @ [''APPLE_ADS_ORG_ID'']"

section \<open>Example inputs\<close>

definition body_invalid_arg :: string where
  \<open>body_invalid_arg =
     ''{"error":[{"messageCode":"INVALID_ARG","message":"bad field","field":"name"}]}''\<close>

definition body_empty_field :: string where
  \<open>body_empty_field =
     ''{"error":[{"messageCode":"INVALID_ARG","message":"bad field","field":""}]}''\<close>

definition body_no_error :: string where
  \<open>body_no_error = ''{"message":"Forbidden"}''\<close>

definition error_entry :: "string \<Rightarrow> int json" where
  "error_entry f =
     JObject [(''messageCode'', JString ''INVALID_ARG''),
              (''message'', JString ''bad field''),
              (''field'', JString f)]"

definition show_int :: "int \<Rightarrow> string" where
  "show_int i = (if i < 0 then ''-'' @ show_nat (nat (- i)) else show_nat (nat i))"

text \<open>
  A library for the examples, with integers for numbers. Its \<^verbatim>\<open>JSON.parse\<close> knows the
  three bodies above and rejects every other text; no example reaches
  \<^verbatim>\<open>JSON.stringify\<close>.
\<close>

definition example_lib :: "int jslib" where
  "example_lib =
     \<lparr>JSON_parse =
        (\<lambda>s. if s = body_invalid_arg
              then Some (JObject [(''error'', JArray [error_entry ''name''])])
              else if s = body_empty_field
              then Some (JObject [(''error'', JArray [error_entry []])])
              else if s = body_no_error
              then Some (JObject [(''message'', JString ''Forbidden'')])
              else None),
      JSON_stringify = (\<lambda>j. []),
      Number_toString = show_int,
      Number_truthy = (\<lambda>i. i \<noteq> 0)\<rparr>"

definition example_config :: AuthConfig where
  "example_config =
     \<lparr>clientId = ''SEARCHADS.client'', teamId = ''SEARCHADS.team'',
      keyId = ''key-1'', privateKeyPath = ''/keys/AuthKey.p8''\<rparr>"

text \<open>
  A world in which the key file is readable, signing succeeds, and the token endpoint
  answers every request with status \<open>code\<close> and body \<open>body\<close>; a body read as JSON
  grants the token \<open>body\<close> for \<open>secs\<close> seconds.
\<close>

definition example_io :: "nat \<Rightarrow> string \<Rightarrow> int \<Rightarrow> auth_io" where
  "example_io code body secs =
     \<lparr>readFileSync = (\<lambda>p. if p = ''/keys/AuthKey.p8'' then Some ''PRIVATE KEY'' else None),
      Date_now_mint = 1700000000123,
      jwt_sign = (\<lambda>payload key header. Some ''signed.jwt''),
      fetch_token = (\<lambda>req. Responded \<lparr>status = code, statusText = [], bodyText = body\<rparr>),
      response_json =
        (\<lambda>s. Some \<lparr>access_token = s, token_type = ''Bearer'', expires_in = secs\<rparr>)\<rparr>"

definition example_request :: token_request where
  "example_request = token_request_of example_config ''signed.jwt''"

text \<open>A state whose cached token expires at \<open>t\<close>, with no request sent yet.\<close>

definition cached_until :: "int \<Rightarrow> auth_state" where
  "cached_until t =
     \<lparr>cachedToken = Some \<lparr>accessToken = ''cached'', expiresAt = t\<rparr>, token_requests = []\<rparr>"

definition example_env :: env where
  "example_env =
     map_of [(''APPLE_ADS_CLIENT_ID'', ''SEARCHADS.client''),
             (''APPLE_ADS_TEAM_ID'', ''SEARCHADS.team''),
             (''APPLE_ADS_KEY_ID'', ''key-1''),
             (''APPLE_ADS_PRIVATE_KEY_PATH'', ''/keys/AuthKey.p8''),
             (''APPLE_ADS_ORG_ID'', ''123456'')]"

text \<open>
  Report arguments in which the caller asks for the opposite of what the normalizer
  forces: no row totals and grand totals.
\<close>

definition example_args :: "granularity option \<Rightarrow> orderClause option \<Rightarrow> baseReportArgs" where
  "example_args g ob =
     \<lparr>startTime = ''2024-01-01'', endTime = ''2024-01-31'',
      selector = Some \<lparr>conditions = None, orderBy = ob, limit = Some 1000, offset = Some 0\<rparr>,
      groupBy = None, timeZone = Some ORTZ, granularity = g,
      returnRowTotals = Some False, returnGrandTotals = Some True,
      returnRecordsWithNoMetrics = Some False\<rparr>"

definition example_campaign_args ::
  "granularity option \<Rightarrow> orderClause option \<Rightarrow> campaignReportArgs" where
  "example_campaign_args g ob = baseReportArgs.extend (example_args g ob) (campaignReportArgs.fields 42)"

section \<open>Response handling: properties\<close>

lemma bind_err_simps [simp]:
  "bind_err (Inl e) f = Inl e"
  "bind_err (Inr x) f = f x"
  by (simp_all add: bind_err_def)

text \<open>
  A response that is not 2xx and has a body never comes back as an envelope: whatever
  the body is, \<^verbatim>\<open>handleResponse\<close> throws.
\<close>

theorem handleResponse_not_ok_raises:
  "bodyText r \<noteq> [] \<Longrightarrow> \<not> ok r \<Longrightarrow> \<exists>e. handleResponse lib r = Inl e"
  by (cases "JSON_parse lib (bodyText r)")
     (auto simp add: handleResponse_def bind_err_def split: sum.splits)

theorem handleResponse_not_ok_raises_witness:
  "\<exists>e. handleResponse example_lib
          \<lparr>status = 502, statusText = ''Bad Gateway'', bodyText = ''<html>''\<rparr> = Inl e"
  using handleResponse_not_ok_raises
    [of "\<lparr>status = 502, statusText = ''Bad Gateway'', bodyText = ''<html>''\<rparr>" example_lib]
  by (simp add: ok_def)

text \<open>
  When the body of a response that is not 2xx parses to a value without a truthy
  \<^verbatim>\<open>error\<close>, the message is the fallback
  \<^verbatim>\<open>HTTP <status>: <statusText> - Response: <raw text>\<close>.
\<close>

theorem handleResponse_no_error_field:
  "bodyText r \<noteq> [] \<Longrightarrow> \<not> ok r \<Longrightarrow> JSON_parse lib (bodyText r) = Some json \<Longrightarrow>
   get_prop json ''error'' = Inr v \<Longrightarrow> \<not> truthy lib v \<Longrightarrow>
   handleResponse lib r =
     Inl (Error (''HTTP '' @ show_nat (status r) @ '': '' @ statusText r
                 @ '' - Response: '' @ bodyText r))"
  by (simp add: handleResponse_def errorMessage_def)

theorem handleResponse_no_error_field_witness:
  \<open>handleResponse example_lib
       \<lparr>status = 403, statusText = ''Forbidden'', bodyText = body_no_error\<rparr>
     = Inl (Error ''HTTP 403: Forbidden - Response: {"message":"Forbidden"}'')\<close>
proof -
  have n: "show_nat 403 = ''403''"
    by (simp add: show_nat.simps)
  have p: "JSON_parse example_lib body_no_error
             = Some (JObject [(''message'', JString ''Forbidden'')])"
    by (simp add: example_lib_def body_no_error_def body_invalid_arg_def
          body_empty_field_def)
  from handleResponse_no_error_field
    [of "\<lparr>status = 403, statusText = ''Forbidden'', bodyText = body_no_error\<rparr>"
        example_lib "JObject [(''message'', JString ''Forbidden'')]" None]
  show ?thesis
    by (simp add: n p ok_def) (simp add: body_no_error_def)
qed

text \<open>
  C1. A response that is not 2xx is to raise an error, and with an empty body the error
  \<^verbatim>\<open>HTTP 403: Forbidden - Response: \<close>. The code raises for every such response that
  has a body, as the two theorems above show, but a 403 with an empty body comes back as
  the envelope \<^verbatim>\<open>{data: null}\<close>: the branch for the empty body, which the source
  comments as the answer of some endpoints on success, is taken before the status is
  looked at.
\<close>

theorem forbidden_with_empty_body_returns_envelope:
  "handleResponse lib \<lparr>status = 403, statusText = ''Forbidden'', bodyText = []\<rparr>
     = Inr (JObject [(''data'', JNull)])"
  by (simp add: handleResponse_def)

theorem forbidden_with_empty_body_returns_envelope_witness:
  "\<not> ok \<lparr>status = 403, statusText = ''Forbidden'', bodyText = []\<rparr>
   \<and> handleResponse example_lib \<lparr>status = 403, statusText = ''Forbidden'', bodyText = []\<rparr>
       = Inr (JObject [(''data'', JNull)])"
  using forbidden_with_empty_body_returns_envelope [of example_lib]
  by (simp add: ok_def)

lemma format_entry_ApiError:
  assumes "ApiError_of e = Some a"
  shows "format_entry lib e = Inr (entry_text a)"
proof -
  from assms obtain kvs where e: "e = JObject kvs"
    by (cases e) (simp_all add: ApiError_of_def)
  from assms e obtain c m where cm:
    "map_of kvs ''messageCode'' = Some (JString c)"
    "map_of kvs ''message'' = Some (JString m)"
    by (auto simp add: ApiError_of_def split: option.splits json.splits)
  show ?thesis
  proof (cases "map_of kvs ''field''")
    case None
    with assms e cm have "a = \<lparr>messageCode = c, message = m, field = None\<rparr>"
      by (simp add: ApiError_of_def)
    with e cm None show ?thesis
      by (simp add: format_entry_def ToString_opt_def entry_text_def)
  next
    case (Some v)
    with assms e cm obtain f where f: "v = JString f"
      by (cases v) (simp_all add: ApiError_of_def)
    with assms e cm Some have "a = \<lparr>messageCode = c, message = m, field = Some f\<rparr>"
      by (simp add: ApiError_of_def)
    with e cm Some f show ?thesis
      by (simp add: format_entry_def ToString_opt_def entry_text_def)
  qed
qed

lemma mapM_format_entries:
  "map ApiError_of es = map Some errs \<Longrightarrow>
   mapM_err (format_entry lib) es = Inr (map entry_text errs)"
proof (induction es arbitrary: errs)
  case Nil
  then show ?case by (simp add: mapM_err_def)
next
  case (Cons e es)
  then obtain a as where errs: "errs = a # as" "ApiError_of e = Some a"
    "map ApiError_of es = map Some as"
    by (cases errs) simp_all
  with Cons.IH [of as] show ?case
    by (simp add: mapM_err_def format_entry_ApiError)
qed

text \<open>
  C5, as stated, fails on an entry whose field is the empty string: the entry has a
  field, and the specification's wording gives it the segment \<^verbatim>\<open> (field: )\<close>, but
  the source tests \<^verbatim>\<open>e.field\<close> for truthiness and leaves the segment out.
\<close>

theorem empty_field_segment_left_out:
  "handleResponse example_lib
       \<lparr>status = 400, statusText = ''Bad Request'', bodyText = body_empty_field\<rparr>
     = Inl (Error ''INVALID_ARG: bad field'')
   \<and> ApiError_of (error_entry []) =
       Some \<lparr>messageCode = ''INVALID_ARG'', message = ''bad field'', field = Some []\<rparr>
   \<and> join ''; '' (map entry_text_spec
         [\<lparr>messageCode = ''INVALID_ARG'', message = ''bad field'', field = Some []\<rparr>])
     = ''INVALID_ARG: bad field (field: )''"
  by (simp add: handleResponse_def example_lib_def body_invalid_arg_def body_empty_field_def
        ok_def error_entry_def errorMessage_def mapM_err_def format_entry_def ToString_opt_def
        entry_text_spec_def ApiError_of_def)

text \<open>
  C5, amended. For every response that is not 2xx and whose body parses to JSON with a
  structured error list under \<^verbatim>\<open>error\<close>, \<^verbatim>\<open>handleResponse\<close> raises an error whose
  message is the entries, each as \<^verbatim>\<open><messageCode>: <message> (field: <field>)\<close> with
  the field segment left out when the entry has no field or an empty one, joined by
  \<^verbatim>\<open>; \<close>. For the body of the specification's example the message is
  \<^verbatim>\<open>INVALID_ARG: bad field (field: name)\<close>.
\<close>

theorem error_list_message:
  assumes "bodyText r \<noteq> []"
    and "\<not> ok r"
    and "JSON_parse lib (bodyText r) = Some json"
    and "get_prop json ''error'' = Inr (Some (JArray es))"
    and "map ApiError_of es = map Some errs"
  shows "handleResponse lib r = Inl (Error (join ''; '' (map entry_text errs)))"
  using assms
  by (simp add: handleResponse_def errorMessage_def mapM_format_entries)

theorem error_list_message_witness:
  "handleResponse example_lib
       \<lparr>status = 400, statusText = ''Bad Request'', bodyText = body_invalid_arg\<rparr>
     = Inl (Error ''INVALID_ARG: bad field (field: name)'')"
  using error_list_message
    [of "\<lparr>status = 400, statusText = ''Bad Request'', bodyText = body_invalid_arg\<rparr>"
        example_lib
        "JObject [(''error'', JArray [error_entry ''name''])]"
        "[error_entry ''name'']"
        "[\<lparr>messageCode = ''INVALID_ARG'', message = ''bad field'', field = Some ''name''\<rparr>]"]
  by (simp add: example_lib_def body_invalid_arg_def ok_def error_entry_def ApiError_of_def
        entry_text_def)

text \<open>
  C10. For every response whose body text is empty, whatever its status,
  \<^verbatim>\<open>handleResponse\<close> returns the envelope \<^verbatim>\<open>{data: null}\<close>: the test of the body comes
  before the test of the status, so a response that is not 2xx and has an empty body is
  returned and not raised.
\<close>

theorem empty_body_returns_null_data:
  "bodyText r = [] \<Longrightarrow> handleResponse lib r = Inr (JObject [(''data'', JNull)])"
  by (simp add: handleResponse_def)

theorem empty_body_returns_null_data_witness:
  "\<not> ok \<lparr>status = 500, statusText = ''Internal Server Error'', bodyText = []\<rparr>
   \<and> handleResponse example_lib
         \<lparr>status = 500, statusText = ''Internal Server Error'', bodyText = []\<rparr>
       = Inr (JObject [(''data'', JNull)])"
  using empty_body_returns_null_data
    [of "\<lparr>status = 500, statusText = ''Internal Server Error'', bodyText = []\<rparr>" example_lib]
  by (simp add: ok_def)

section \<open>Token cache: properties\<close>

lemma fetchAccessToken_cache:
  "cachedToken (snd (fetchAccessToken io cfg st)) = cachedToken st"
  by (simp add: fetchAccessToken_def Let_def
        split: sum.splits fetch_result.splits option.splits)

lemma fetchAccessToken_log:
  "generateClientSecret io cfg = Inr secret \<Longrightarrow>
   token_requests (snd (fetchAccessToken io cfg st)) =
     token_requests st @ [token_request_of cfg secret]"
  by (simp add: fetchAccessToken_def Let_def
        split: sum.splits fetch_result.splits option.splits)

lemma getAccessToken_valid:
  "cachedToken st = Some c \<Longrightarrow> now + 5 * 60 * 1000 < expiresAt c \<Longrightarrow>
   getAccessToken io now cfg st = (Inr (accessToken c), st)"
  by (simp add: getAccessToken_def)

lemma getAccessToken_invalid:
  "\<not> cache_valid now st \<Longrightarrow> getAccessToken io now cfg st = fetchAndCache io now cfg st"
  by (cases "cachedToken st") (simp_all add: getAccessToken_def cache_valid_def)

lemma fetchAndCache_log:
  "generateClientSecret io cfg = Inr secret \<Longrightarrow>
   token_requests (snd (fetchAndCache io now cfg st)) =
     token_requests st @ [token_request_of cfg secret]"
  using fetchAccessToken_log [of io cfg secret st]
  by (cases "fetchAccessToken io cfg st"; cases "fst (fetchAccessToken io cfg st)")
     (simp_all add: fetchAndCache_def)

lemma fetchAndCache_ok:
  "fst (fetchAccessToken io cfg st) = Inr tr \<Longrightarrow>
   fst (fetchAndCache io now cfg st) = Inr (access_token tr) \<and>
   cachedToken (snd (fetchAndCache io now cfg st)) =
     Some \<lparr>accessToken = access_token tr, expiresAt = now + expires_in tr * 1000\<rparr>"
  by (cases "fetchAccessToken io cfg st") (simp add: fetchAndCache_def)

lemma fetchAndCache_fail:
  "fst (fetchAndCache io now cfg st) = Inl e \<Longrightarrow>
   cachedToken (snd (fetchAndCache io now cfg st)) = cachedToken st"
  using fetchAccessToken_cache [of io cfg st]
  by (cases "fetchAccessToken io cfg st"; cases "fst (fetchAccessToken io cfg st)")
     (simp_all add: fetchAndCache_def)

lemma getAccessToken_failure_keeps_cache:
  assumes "getAccessToken io now cfg st = (Inl e, st')"
  shows "cachedToken st' = cachedToken st"
proof (cases "cache_valid now st")
  case True
  with assms show ?thesis
    by (cases "cachedToken st") (simp_all add: cache_valid_def getAccessToken_def)
next
  case False
  with assms have "fetchAndCache io now cfg st = (Inl e, st')"
    by (simp add: getAccessToken_invalid)
  then show ?thesis
    using fetchAndCache_fail [of io now cfg st e] by simp
qed

lemma example_mint:
  "generateClientSecret (example_io code body secs) example_config = Inr ''signed.jwt''"
  by (simp add: generateClientSecret_def example_io_def example_config_def Let_def)

lemma example_fetch_ok:
  "fetchAccessToken (example_io 200 body secs) example_config st =
     (Inr \<lparr>access_token = body, token_type = ''Bearer'', expires_in = secs\<rparr>,
      st\<lparr>token_requests := token_requests st @ [example_request]\<rparr>)"
  by (simp add: fetchAccessToken_def example_mint Let_def example_request_def)
     (simp add: example_io_def ok_def)

text \<open>
  C3. A cached token that expires four minutes after \<open>now\<close> is not served: a request
  goes to the token endpoint. One that expires six minutes after \<open>now\<close> is served, and
  the state, the log of requests with it, stays as it was. And when a call exchanges a
  token (the cache was not valid, the exchange succeeded) whose expiry lies more than
  five minutes after the clock of a second call, both calls return that token and the
  two together have sent one request. The secret is minted with success throughout, which
  is what lets a request be sent at all.
\<close>

theorem token_cache_safety_margin:
  assumes mint: "generateClientSecret io cfg = Inr secret"
  shows "(cachedToken st4 = Some c4 \<and> expiresAt c4 = now + 4 * 60 * 1000 \<longrightarrow>
            token_requests (snd (getAccessToken io now cfg st4)) =
              token_requests st4 @ [token_request_of cfg secret])
       \<and> (cachedToken st6 = Some c6 \<and> expiresAt c6 = now + 6 * 60 * 1000 \<longrightarrow>
            getAccessToken io now cfg st6 = (Inr (accessToken c6), st6))
       \<and> (\<not> cache_valid now st \<and> fst (fetchAccessToken io cfg st) = Inr tr
            \<and> now2 + 5 * 60 * 1000 < now + expires_in tr * 1000 \<longrightarrow>
            fst (getAccessToken io now cfg st) = Inr (access_token tr)
            \<and> fst (getAccessToken io2 now2 cfg (snd (getAccessToken io now cfg st)))
                = Inr (access_token tr)
            \<and> token_requests
                  (snd (getAccessToken io2 now2 cfg (snd (getAccessToken io now cfg st))))
                = token_requests st @ [token_request_of cfg secret])"
proof (intro conjI impI)
  assume "cachedToken st4 = Some c4 \<and> expiresAt c4 = now + 4 * 60 * 1000"
  then have "\<not> cache_valid now st4"
    by (simp add: cache_valid_def)
  then show "token_requests (snd (getAccessToken io now cfg st4)) =
               token_requests st4 @ [token_request_of cfg secret]"
    by (simp add: getAccessToken_invalid fetchAndCache_log [OF mint])
next
  assume "cachedToken st6 = Some c6 \<and> expiresAt c6 = now + 6 * 60 * 1000"
  then show "getAccessToken io now cfg st6 = (Inr (accessToken c6), st6)"
    by (simp add: getAccessToken_valid)
next
  assume h: "\<not> cache_valid now st \<and> fst (fetchAccessToken io cfg st) = Inr tr
               \<and> now2 + 5 * 60 * 1000 < now + expires_in tr * 1000"
  let ?st1 = "snd (getAccessToken io now cfg st)"
  from h have g1: "getAccessToken io now cfg st = fetchAndCache io now cfg st"
    by (simp add: getAccessToken_invalid)
  from h have ex: "fst (fetchAndCache io now cfg st) = Inr (access_token tr)"
    "cachedToken (snd (fetchAndCache io now cfg st)) =
       Some \<lparr>accessToken = access_token tr, expiresAt = now + expires_in tr * 1000\<rparr>"
    using fetchAndCache_ok [of io cfg st tr now] by simp_all
  show "fst (getAccessToken io now cfg st) = Inr (access_token tr)"
    by (simp add: g1 ex)
  have c1: "cachedToken ?st1 =
       Some \<lparr>accessToken = access_token tr, expiresAt = now + expires_in tr * 1000\<rparr>"
    by (simp add: g1 ex)
  have g2: "getAccessToken io2 now2 cfg ?st1 = (Inr (access_token tr), ?st1)"
    using getAccessToken_valid [OF c1, of now2 io2 cfg] h by simp
  show "fst (getAccessToken io2 now2 cfg ?st1) = Inr (access_token tr)"
    by (simp add: g2)
  show "token_requests (snd (getAccessToken io2 now2 cfg ?st1)) =
          token_requests st @ [token_request_of cfg secret]"
    by (simp add: g2) (simp add: g1 fetchAndCache_log [OF mint])
qed

text \<open>
  The witness: at clock 1700000000000 the endpoint grants \<^verbatim>\<open>fresh\<close> for an hour; the
  second call comes a second later, in a world whose endpoint would answer 503.
\<close>

theorem token_cache_safety_margin_witness:
  "token_requests
       (snd (getAccessToken (example_io 200 ''fresh'' 3600) 1700000000000 example_config
               (cached_until 1700000240000)))
     = [example_request]
   \<and> getAccessToken (example_io 200 ''fresh'' 3600) 1700000000000 example_config
         (cached_until 1700000360000)
       = (Inr ''cached'', cached_until 1700000360000)
   \<and> fst (getAccessToken (example_io 200 ''fresh'' 3600) 1700000000000 example_config
             \<lparr>cachedToken = None, token_requests = []\<rparr>)
       = Inr ''fresh''
   \<and> fst (getAccessToken (example_io 503 [] 0) 1700000001000 example_config
             (snd (getAccessToken (example_io 200 ''fresh'' 3600) 1700000000000 example_config
                     \<lparr>cachedToken = None, token_requests = []\<rparr>)))
       = Inr ''fresh''
   \<and> token_requests
         (snd (getAccessToken (example_io 503 [] 0) 1700000001000 example_config
                 (snd (getAccessToken (example_io 200 ''fresh'' 3600) 1700000000000
                         example_config \<lparr>cachedToken = None, token_requests = []\<rparr>))))
       = [example_request]"
  using token_cache_safety_margin
    [where io = "example_io 200 ''fresh'' 3600" and cfg = example_config
       and secret = "''signed.jwt''" and now = 1700000000000
       and ?st4.0 = "cached_until 1700000240000"
       and ?c4.0 = "\<lparr>accessToken = ''cached'', expiresAt = 1700000240000\<rparr>"
       and ?st6.0 = "cached_until 1700000360000"
       and ?c6.0 = "\<lparr>accessToken = ''cached'', expiresAt = 1700000360000\<rparr>"
       and st = "\<lparr>cachedToken = None, token_requests = []\<rparr>"
       and tr = "\<lparr>access_token = ''fresh'', token_type = ''Bearer'', expires_in = 3600\<rparr>"
       and ?now2.0 = 1700000001000 and ?io2.0 = "example_io 503 [] 0",
     OF example_mint]
  by (simp add: cached_until_def cache_valid_def example_fetch_ok example_request_def)

text \<open>
  C4, as stated, fails for a token that was just exchanged: the endpoint grants a token
  for sixty seconds, and \<^verbatim>\<open>getAccessToken\<close> stores it with an expiry sixty seconds
  after \<open>now\<close> and returns it. The source applies the five minutes to the cached token
  only.
\<close>

theorem short_lived_token_returned:
  "getAccessToken (example_io 200 ''sixty-seconds'' 60) 1700000000000 example_config
       \<lparr>cachedToken = None, token_requests = []\<rparr>
     = (Inr ''sixty-seconds'',
        \<lparr>cachedToken = Some \<lparr>accessToken = ''sixty-seconds'', expiresAt = 1700000060000\<rparr>,
         token_requests = [example_request]\<rparr>)
   \<and> \<not> (5 * 60 * 1000 \<le> (1700000060000 - 1700000000000 :: int))"
  by (simp add: getAccessToken_def fetchAndCache_def example_fetch_ok)

text \<open>
  C4, amended. Every access token \<^verbatim>\<open>getAccessToken\<close> returns is the token of the cache
  as the call leaves it. A token served from the cache has more than five minutes left
  at \<open>now\<close>, measured against the stored \<^verbatim>\<open>expiresAt\<close>, and the state is untouched.
  Otherwise the cache was not valid, the token comes from an exchange made by this call,
  and what it has left at \<open>now\<close> is the lifetime the endpoint granted, \<^verbatim>\<open>expires_in\<close>
  seconds, whatever that is.
\<close>

theorem returned_token_validity:
  assumes "getAccessToken io now cfg st = (Inr tok, st')"
  shows "\<exists>c. cachedToken st' = Some c \<and> accessToken c = tok \<and>
           ((cache_valid now st \<and> st' = st \<and> now + 5 * 60 * 1000 < expiresAt c) \<or>
            (\<not> cache_valid now st \<and>
               (\<exists>tr. fst (fetchAccessToken io cfg st) = Inr tr \<and> access_token tr = tok \<and>
                     expiresAt c - now = expires_in tr * 1000)))"
proof (cases "cache_valid now st")
  case True
  then obtain c where c: "cachedToken st = Some c" "now + 5 * 60 * 1000 < expiresAt c"
    by (cases "cachedToken st") (simp_all add: cache_valid_def)
  with assms have "tok = accessToken c" "st' = st"
    by (simp_all add: getAccessToken_def)
  with c True show ?thesis by simp
next
  case False
  with assms have fc: "fetchAndCache io now cfg st = (Inr tok, st')"
    by (simp add: getAccessToken_invalid)
  obtain res st1 where f: "fetchAccessToken io cfg st = (res, st1)"
    by (cases "fetchAccessToken io cfg st")
  from fc f obtain tr where tr: "res = Inr tr"
    by (cases res) (simp_all add: fetchAndCache_def)
  from fc f tr have "tok = access_token tr"
    "st' = st1\<lparr>cachedToken := Some \<lparr>accessToken = access_token tr,
                                      expiresAt = now + expires_in tr * 1000\<rparr>\<rparr>"
    by (auto simp add: fetchAndCache_def)
  with False f tr show ?thesis by simp
qed

text \<open>
  The witness: a cached token with six minutes left is served, and the margin holds
  for it.
\<close>

theorem returned_token_validity_witness:
  "getAccessToken (example_io 503 [] 0) 1700000000000 example_config
       (cached_until 1700000360000)
     = (Inr ''cached'', cached_until 1700000360000)
   \<and> cachedToken (cached_until 1700000360000)
       = Some \<lparr>accessToken = ''cached'', expiresAt = 1700000360000\<rparr>
   \<and> cache_valid 1700000000000 (cached_until 1700000360000)
   \<and> (\<exists>c. cachedToken (cached_until 1700000360000) = Some c
          \<and> 1700000000000 + 5 * 60 * 1000 < expiresAt c)"
proof -
  have run: "getAccessToken (example_io 503 [] 0) 1700000000000 example_config
       (cached_until 1700000360000)
     = (Inr ''cached'', cached_until 1700000360000)"
    by (simp add: getAccessToken_def cached_until_def)
  have valid: "cache_valid 1700000000000 (cached_until 1700000360000)"
    by (simp add: cache_valid_def cached_until_def)
  from returned_token_validity [OF run] valid
  have "\<exists>c. cachedToken (cached_until 1700000360000) = Some c
          \<and> 1700000000000 + 5 * 60 * 1000 < expiresAt c"
    by auto
  with run valid show ?thesis
    by (simp add: cached_until_def)
qed

text \<open>
  C6. When the cache is not valid, the secret is minted, and the token endpoint answers
  the request with a status that is not 2xx, \<^verbatim>\<open>getAccessToken\<close> throws the error
  \<^verbatim>\<open>Failed to fetch access token: <status> <body>\<close> and the cached token is what it
  was before the call. More generally, whenever \<^verbatim>\<open>getAccessToken\<close> throws, for whatever
  reason, the cached token is what it was: the cache is assigned only after a successful
  exchange.
\<close>

theorem token_endpoint_failure_keeps_cache:
  assumes "\<not> cache_valid now st"
    and "generateClientSecret io cfg = Inr secret"
    and "fetch_token io (token_request_of cfg secret) = Responded r"
    and "\<not> ok r"
  shows "fst (getAccessToken io now cfg st) =
           Inl (Error (''Failed to fetch access token: '' @ show_nat (status r) @ '' ''
                       @ bodyText r))
       \<and> cachedToken (snd (getAccessToken io now cfg st)) = cachedToken st
       \<and> (\<forall>io' now' st0 e st'.
             getAccessToken io' now' cfg st0 = (Inl e, st') \<longrightarrow>
             cachedToken st' = cachedToken st0)"
proof -
  have f: "fetchAccessToken io cfg st =
     (Inl (Error (''Failed to fetch access token: '' @ show_nat (status r) @ '' ''
                  @ bodyText r)),
      st\<lparr>token_requests := token_requests st @ [token_request_of cfg secret]\<rparr>)"
    using assms(2-4) by (simp add: fetchAccessToken_def Let_def)
  have g: "getAccessToken io now cfg st = fetchAndCache io now cfg st"
    using assms(1) by (rule getAccessToken_invalid)
  show ?thesis
    using getAccessToken_failure_keeps_cache
    by (simp add: g fetchAndCache_def f)
qed

text \<open>
  The witness: the cached token expired a second ago and the endpoint answers 401; the
  expired token stays in the cache.
\<close>

theorem token_endpoint_failure_keeps_cache_witness:
  \<open>fst (getAccessToken (example_io 401 ''{"error":"invalid_client"}'' 0) 1700000000000
          example_config (cached_until 1699999999000))
     = Inl (Error ''Failed to fetch access token: 401 {"error":"invalid_client"}'')
   \<and> cachedToken
         (snd (getAccessToken (example_io 401 ''{"error":"invalid_client"}'' 0) 1700000000000
                 example_config (cached_until 1699999999000)))
       = Some \<lparr>accessToken = ''cached'', expiresAt = 1699999999000\<rparr>\<close>
proof -
  have a1: "\<not> cache_valid 1700000000000 (cached_until 1699999999000)"
    by (simp add: cache_valid_def cached_until_def)
  have a3: \<open>fetch_token (example_io 401 ''{"error":"invalid_client"}'' 0)
              (token_request_of example_config ''signed.jwt'')
            = Responded \<lparr>status = 401, statusText = [],
                          bodyText = ''{"error":"invalid_client"}''\<rparr>\<close>
    by (simp add: example_io_def)
  have a4: \<open>\<not> ok \<lparr>status = 401, statusText = [],
                     bodyText = ''{"error":"invalid_client"}''\<rparr>\<close>
    by (simp add: ok_def)
  have n: "show_nat 401 = ''401''"
    by (simp add: show_nat.simps)
  from token_endpoint_failure_keeps_cache [OF a1 example_mint a3 a4]
  show ?thesis
    by (simp add: n cached_until_def)
qed

text \<open>
  C9. After \<^verbatim>\<open>clearTokenCache\<close>, whatever the cache held before, the result of
  \<^verbatim>\<open>getAccessToken\<close> is the result of the exchange (its error, or the token the endpoint
  granted), never a cached token; and when the secret is minted, the call sends one
  new request to the token endpoint.
\<close>

theorem clear_then_get_exchanges:
  "fst (getAccessToken io now cfg (clearTokenCache st)) =
     (case fst (fetchAccessToken io cfg (clearTokenCache st)) of
        Inl e \<Rightarrow> Inl e
      | Inr tr \<Rightarrow> Inr (access_token tr))
   \<and> (generateClientSecret io cfg = Inr secret \<longrightarrow>
        token_requests (snd (getAccessToken io now cfg (clearTokenCache st))) =
          token_requests st @ [token_request_of cfg secret])"
proof -
  have inv: "\<not> cache_valid now (clearTokenCache st)"
    by (simp add: cache_valid_def clearTokenCache_def)
  have g: "getAccessToken io now cfg (clearTokenCache st) =
             fetchAndCache io now cfg (clearTokenCache st)"
    using inv by (rule getAccessToken_invalid)
  have a: "fst (fetchAndCache io now cfg (clearTokenCache st)) =
     (case fst (fetchAccessToken io cfg (clearTokenCache st)) of
        Inl e \<Rightarrow> Inl e
      | Inr tr \<Rightarrow> Inr (access_token tr))"
    by (cases "fetchAccessToken io cfg (clearTokenCache st)";
        cases "fst (fetchAccessToken io cfg (clearTokenCache st))")
       (simp_all add: fetchAndCache_def)
  have b: "generateClientSecret io cfg = Inr secret \<Longrightarrow>
        token_requests (snd (fetchAndCache io now cfg (clearTokenCache st))) =
          token_requests st @ [token_request_of cfg secret]"
    using fetchAndCache_log [of io cfg secret now "clearTokenCache st"]
    by (simp add: clearTokenCache_def)
  show ?thesis using a b by (simp add: g)
qed

text \<open>
  The witness: the cache holds a token that is valid for another hour; after the clear
  the call returns the endpoint's token and has sent a request.
\<close>

theorem clear_then_get_exchanges_witness:
  "cache_valid 1700000000000 (cached_until 1700003600000)
   \<and> fst (getAccessToken (example_io 200 ''fresh'' 3600) 1700000000000 example_config
             (clearTokenCache (cached_until 1700003600000)))
       = Inr ''fresh''
   \<and> token_requests
         (snd (getAccessToken (example_io 200 ''fresh'' 3600) 1700000000000 example_config
                 (clearTokenCache (cached_until 1700003600000))))
       = [example_request]"
  using clear_then_get_exchanges
    [of "example_io 200 ''fresh'' 3600" 1700000000000 example_config
        "cached_until 1700003600000" "''signed.jwt''"]
  by (simp add: example_mint example_fetch_ok cache_valid_def)
     (simp add: cached_until_def example_request_def)

section \<open>Configuration: properties\<close>

text \<open>
  C7, as stated, fails for \<^verbatim>\<open>createClientFromEnv\<close>: with only the organisation id
  missing and with only the client id missing it throws one and the same message, which
  lists all five variables and so does not tell which one is missing.
\<close>

theorem createClientFromEnv_message_is_the_same:
  "createClientFromEnv (example_env(''APPLE_ADS_ORG_ID'' := None))
     = Inl (Error (''Missing required environment variables. Please set: ''
                   @ ''APPLE_ADS_CLIENT_ID, APPLE_ADS_TEAM_ID, APPLE_ADS_KEY_ID, ''
                   @ ''APPLE_ADS_PRIVATE_KEY_PATH, APPLE_ADS_ORG_ID''))
   \<and> createClientFromEnv (example_env(''APPLE_ADS_CLIENT_ID'' := None))
       = createClientFromEnv (example_env(''APPLE_ADS_ORG_ID'' := None))"
  by (simp add: createClientFromEnv_def example_env_def falsy_def)

text \<open>
  C7, amended. When one of the five required variables is missing (not set, or empty),
  \<^verbatim>\<open>createClientFromEnv\<close> throws a configuration error whose message is one fixed text
  that lists the five variables. When one of the four credential variables is missing and
  the other three are set, \<^verbatim>\<open>loadAuthConfigFromEnv\<close> throws an error whose message is
  that variable's name followed by \<^verbatim>\<open> environment variable is required\<close>. A client
  that \<^verbatim>\<open>createClientFromEnv\<close> does return has all five values, none of them empty.
  Both functions only read the environment: they have no access to the token endpoint,
  and no request is sent.
\<close>

theorem missing_variable_is_a_configuration_error:
  "(v \<in> set client_variables \<and> falsy (e v) \<longrightarrow>
      createClientFromEnv e =
        Inl (Error (''Missing required environment variables. Please set: ''
                    @ ''APPLE_ADS_CLIENT_ID, APPLE_ADS_TEAM_ID, APPLE_ADS_KEY_ID, ''
                    @ ''APPLE_ADS_PRIVATE_KEY_PATH, APPLE_ADS_ORG_ID'')))
   \<and> (v \<in> set auth_variables \<and> falsy (e v)
        \<and> (\<forall>w \<in> set auth_variables. w \<noteq> v \<longrightarrow> \<not> falsy (e w)) \<longrightarrow>
      loadAuthConfigFromEnv e = Inl (Error (v @ '' environment variable is required'')))
   \<and> (createClientFromEnv e = Inr client \<longrightarrow>
        clientId (auth client) \<noteq> [] \<and> teamId (auth client) \<noteq> []
        \<and> keyId (auth client) \<noteq> [] \<and> privateKeyPath (auth client) \<noteq> []
        \<and> orgId client \<noteq> [])"
proof (intro conjI impI)
  assume "v \<in> set client_variables \<and> falsy (e v)"
  then show "createClientFromEnv e =
        Inl (Error (''Missing required environment variables. Please set: ''
                    @ ''APPLE_ADS_CLIENT_ID, APPLE_ADS_TEAM_ID, APPLE_ADS_KEY_ID, ''
                    @ ''APPLE_ADS_PRIVATE_KEY_PATH, APPLE_ADS_ORG_ID''))"
    by (auto simp add: client_variables_def auth_variables_def createClientFromEnv_def)
next
  assume h: "v \<in> set auth_variables \<and> falsy (e v)
        \<and> (\<forall>w \<in> set auth_variables. w \<noteq> v \<longrightarrow> \<not> falsy (e w))"
  then consider "v = ''APPLE_ADS_CLIENT_ID''" | "v = ''APPLE_ADS_TEAM_ID''"
    | "v = ''APPLE_ADS_KEY_ID''" | "v = ''APPLE_ADS_PRIVATE_KEY_PATH''"
    by (auto simp add: auth_variables_def)
  then show "loadAuthConfigFromEnv e = Inl (Error (v @ '' environment variable is required''))"
  proof cases
    case 1
    with h show ?thesis
      by (simp add: loadAuthConfigFromEnv_def)
  next
    case 2
    with h show ?thesis
      by (simp add: loadAuthConfigFromEnv_def auth_variables_def)
  next
    case 3
    with h show ?thesis
      by (simp add: loadAuthConfigFromEnv_def auth_variables_def)
  next
    case 4
    with h show ?thesis
      by (simp add: loadAuthConfigFromEnv_def auth_variables_def)
  qed
next
  assume c: "createClientFromEnv e = Inr client"
  then have set: "\<not> falsy (e ''APPLE_ADS_CLIENT_ID'')" "\<not> falsy (e ''APPLE_ADS_TEAM_ID'')"
    "\<not> falsy (e ''APPLE_ADS_KEY_ID'')" "\<not> falsy (e ''APPLE_ADS_PRIVATE_KEY_PATH'')"
    "\<not> falsy (e ''APPLE_ADS_ORG_ID'')"
    by (auto simp add: createClientFromEnv_def split: if_splits)
  with c have client: "client =
      \<lparr>auth = \<lparr>clientId = the (e ''APPLE_ADS_CLIENT_ID''),
                teamId = the (e ''APPLE_ADS_TEAM_ID''),
                keyId = the (e ''APPLE_ADS_KEY_ID''),
                privateKeyPath = the (e ''APPLE_ADS_PRIVATE_KEY_PATH'')\<rparr>,
        orgId = the (e ''APPLE_ADS_ORG_ID'')\<rparr>"
    by (simp add: createClientFromEnv_def)
  from set show "clientId (auth client) \<noteq> []" "teamId (auth client) \<noteq> []"
    "keyId (auth client) \<noteq> []" "privateKeyPath (auth client) \<noteq> []"
    "orgId client \<noteq> []"
    by (auto simp add: client falsy_def split: option.splits)
qed

text \<open>
  The witness: the key id is the variable that is not set; and with all five set, the
  client is returned.
\<close>

theorem missing_variable_is_a_configuration_error_witness:
  "createClientFromEnv (example_env(''APPLE_ADS_KEY_ID'' := None))
     = Inl (Error (''Missing required environment variables. Please set: ''
                   @ ''APPLE_ADS_CLIENT_ID, APPLE_ADS_TEAM_ID, APPLE_ADS_KEY_ID, ''
                   @ ''APPLE_ADS_PRIVATE_KEY_PATH, APPLE_ADS_ORG_ID''))
   \<and> loadAuthConfigFromEnv (example_env(''APPLE_ADS_KEY_ID'' := None))
       = Inl (Error ''APPLE_ADS_KEY_ID environment variable is required'')
   \<and> createClientFromEnv example_env
       = Inr \<lparr>auth = example_config, orgId = ''123456''\<rparr>
   \<and> orgId \<lparr>auth = example_config, orgId = ''123456''\<rparr> \<noteq> []"
proof -
  have made: "createClientFromEnv example_env = Inr \<lparr>auth = example_config, orgId = ''123456''\<rparr>"
    by (simp add: createClientFromEnv_def example_env_def example_config_def falsy_def)
  from missing_variable_is_a_configuration_error
    [of "''APPLE_ADS_KEY_ID''" "example_env(''APPLE_ADS_KEY_ID'' := None)"]
  have missing: "createClientFromEnv (example_env(''APPLE_ADS_KEY_ID'' := None))
     = Inl (Error (''Missing required environment variables. Please set: ''
                   @ ''APPLE_ADS_CLIENT_ID, APPLE_ADS_TEAM_ID, APPLE_ADS_KEY_ID, ''
                   @ ''APPLE_ADS_PRIVATE_KEY_PATH, APPLE_ADS_ORG_ID''))"
    "loadAuthConfigFromEnv (example_env(''APPLE_ADS_KEY_ID'' := None))
       = Inl (Error ''APPLE_ADS_KEY_ID environment variable is required'')"
    by (simp_all add: client_variables_def auth_variables_def falsy_def example_env_def)
  from missing_variable_is_a_configuration_error
    [of _ example_env "\<lparr>auth = example_config, orgId = ''123456''\<rparr>"] made
  have "orgId \<lparr>auth = example_config, orgId = ''123456''\<rparr> \<noteq> []"
    by blast
  with made missing show ?thesis
    by blast
qed

section \<open>Report parameters: properties\<close>

lemma buildReportParams_truncate:
  "buildReportParams (baseReportArgs.truncate args) = buildReportParams args"
  by (simp add: buildReportParams_def baseReportArgs.truncate_def)

lemma params_of_call_report_tool:
  "params_of (call_report_tool q) = buildReportParams (base_args q)"
  by (cases q)
     (simp_all add: handleGetCampaignReports_def handleGetAdGroupReports_def
        handleGetKeywordReports_def handleGetSearchTermReports_def
        buildReportParams_truncate)

lemma buildReportParams_row_totals:
  "granularity args = None \<Longrightarrow> p_returnRowTotals (buildReportParams args)"
  by (simp add: buildReportParams_def Let_def split: option.splits)

lemma buildReportParams_grand_totals:
  "granularity args \<noteq> None \<Longrightarrow> \<not> p_returnGrandTotals (buildReportParams args)"
  by (auto simp add: buildReportParams_def Let_def split: option.splits)

lemma buildReportParams_orderBy:
  "sel_orderBy (p_selector (buildReportParams args)) =
     (case selector args of
        None \<Rightarrow> [\<lparr>ob_field = ''impressions'', ob_sortOrder = DESCENDING\<rparr>]
      | Some s \<Rightarrow>
          (case orderBy s of
             None \<Rightarrow> [\<lparr>ob_field = ''impressions'', ob_sortOrder = DESCENDING\<rparr>]
           | Some ob \<Rightarrow> [ob]))"
  by (simp add: buildReportParams_def Let_def split: option.splits)

text \<open>
  C2. For every report request, at each of the four levels, the parameters the handler
  passes to the client are those \<^verbatim>\<open>buildReportParams\<close> builds from the request's
  arguments; when the request has no granularity they have \<^verbatim>\<open>returnRowTotals\<close> true,
  and when it has one they have \<^verbatim>\<open>returnGrandTotals\<close> false, whatever the caller
  passed for either.
\<close>

theorem report_totals_forced_at_every_level:
  "params_of (call_report_tool q) = buildReportParams (base_args q)
   \<and> (granularity (base_args q) = None \<longrightarrow>
        p_returnRowTotals (params_of (call_report_tool q)) = True)
   \<and> (granularity (base_args q) \<noteq> None \<longrightarrow>
        p_returnGrandTotals (params_of (call_report_tool q)) = False)"
  using buildReportParams_row_totals [of "base_args q"]
    buildReportParams_grand_totals [of "base_args q"]
  by (simp add: params_of_call_report_tool)

text \<open>
  The witness: a keyword report without granularity whose caller passed
  \<^verbatim>\<open>returnRowTotals: false\<close>, and a daily campaign report whose caller passed
  \<^verbatim>\<open>returnGrandTotals: true\<close>.
\<close>

theorem report_totals_forced_at_every_level_witness:
  "returnRowTotals (base_args (get_keyword_reports (example_campaign_args None None)))
     = Some False
   \<and> p_returnRowTotals
         (params_of (call_report_tool
            (get_keyword_reports (example_campaign_args None None)))) = True
   \<and> returnGrandTotals (base_args (get_campaign_reports (example_args (Some DAILY) None)))
       = Some True
   \<and> p_returnGrandTotals
         (params_of (call_report_tool
            (get_campaign_reports (example_args (Some DAILY) None)))) = False"
proof -
  let ?k = "get_keyword_reports (example_campaign_args None None)"
  let ?c = "get_campaign_reports (example_args (Some DAILY) None)"
  have k: "granularity (base_args ?k) = None"
    and kr: "returnRowTotals (base_args ?k) = Some False"
    by (simp_all add: example_campaign_args_def example_args_def
          baseReportArgs.truncate_def baseReportArgs.extend_def)
  have c: "granularity (base_args ?c) \<noteq> None"
    and cg: "returnGrandTotals (base_args ?c) = Some True"
    by (simp_all add: example_args_def)
  from k report_totals_forced_at_every_level [of ?k]
  have r1: "p_returnRowTotals (params_of (call_report_tool ?k)) = True"
    by blast
  from c report_totals_forced_at_every_level [of ?c]
  have r2: "p_returnGrandTotals (params_of (call_report_tool ?c)) = False"
    by blast
  from kr r1 cg r2 show ?thesis
    by blast
qed

text \<open>
  C8. For every report request, at each of the four levels, the selector the handler
  passes to the client has as its \<^verbatim>\<open>orderBy\<close> the one clause
  \<^verbatim>\<open>{field: "impressions", sortOrder: "DESCENDING"}\<close> when the caller supplied no
  order-by clause, and the caller's clause as a list of one element when the caller
  supplied one.
\<close>

theorem report_orderBy_default:
  "sel_orderBy (p_selector (params_of (call_report_tool q))) =
     (case caller_orderBy q of
        None \<Rightarrow> [\<lparr>ob_field = ''impressions'', ob_sortOrder = DESCENDING\<rparr>]
      | Some ob \<Rightarrow> [ob])"
  by (simp add: params_of_call_report_tool buildReportParams_orderBy caller_orderBy_def
        split: option.splits)

text \<open>
  The witness: a search-term report without an order-by clause, and an ad-group report
  ordered by spend, ascending.
\<close>

theorem report_orderBy_default_witness:
  "sel_orderBy (p_selector (params_of (call_report_tool
       (get_searchterm_reports (example_campaign_args None None)))))
     = [\<lparr>ob_field = ''impressions'', ob_sortOrder = DESCENDING\<rparr>]
   \<and> sel_orderBy (p_selector (params_of (call_report_tool
         (get_adgroup_reports (example_campaign_args None
            (Some \<lparr>ob_field = ''localSpend'', ob_sortOrder = ASCENDING\<rparr>))))))
       = [\<lparr>ob_field = ''localSpend'', ob_sortOrder = ASCENDING\<rparr>]"
proof -
  let ?s = "get_searchterm_reports (example_campaign_args None None)"
  let ?ob = "\<lparr>ob_field = ''localSpend'', ob_sortOrder = ASCENDING\<rparr>"
  let ?a = "get_adgroup_reports (example_campaign_args None (Some ?ob))"
  have s: "caller_orderBy ?s = None"
    and a: "caller_orderBy ?a = Some ?ob"
    by (simp_all add: caller_orderBy_def example_campaign_args_def example_args_def
          baseReportArgs.truncate_def baseReportArgs.extend_def)
  from report_orderBy_default [of ?s] s
  have r1: "sel_orderBy (p_selector (params_of (call_report_tool ?s)))
              = [\<lparr>ob_field = ''impressions'', ob_sortOrder = DESCENDING\<rparr>]"
    by (simp del: call_report_tool.simps)
  from report_orderBy_default [of ?a] a
  have r2: "sel_orderBy (p_selector (params_of (call_report_tool ?a))) = [?ob]"
    by (simp del: call_report_tool.simps)
  from r1 r2 show ?thesis
    by blast
qed

end
